theory Spec2Isabelle
  imports Main "HOL-Library.Sublist"
begin

section \<open>The websocket client of \<open>src/client/src/index.ts\<close>\<close>

text \<open>
  The script under verification:
  \<^verbatim>\<open>
  let ws;
  const DEBUG = true;

  (() => {
      ws = new WebSocket(`${document.documentURI.replace(/https?/, 'ws')}ws`);
      ws.onopen = e => {
          console.log("Websocket connection established!");
      }
      ws.onmessage = e => {
          if (!e.data.packet_type)
              console.error(`Invalid packet recieved: ${JSON.stringify(e.data)}`);
          if (DEBUG)
              console.log(`Packet recieved: ${JSON.stringify(e.data)}`);
      }
  })();
  \<close>
  Strings are \<^typ>\<open>string\<close>: a list of code units, here of 8 bits. Every character the
  script itself names (\<open>h t p s w\<close>, the quotes and the control characters of JSON) is
  in that range.
\<close>

subsection \<open>The endpoint address: \<open>String.prototype.replace\<close> with \<open>/https?/\<close>\<close>

text \<open>
  The pattern \<open>/https?/\<close> tried at the start of a string: the four characters
  \<open>http\<close>, then an optional \<open>s\<close>, greedily. The result is the number of characters
  matched, or \<open>None\<close> when the pattern does not match there. The pattern has no flag, so
  it is case sensitive.
\<close>

definition match_https :: "string \<Rightarrow> nat option" where
  "match_https s =
     (if prefix ''http'' s then (if prefix ''https'' s then Some 5 else Some 4) else None)"

text \<open>
  \<open>subject.replace(/https?/, r)\<close> for a replacement \<open>r\<close> without \<open>$\<close>: the pattern is
  not global, so the leftmost match alone is replaced, and a subject without a match is
  returned as it is.
\<close>

fun replace_https :: "string \<Rightarrow> string \<Rightarrow> string" where
  "replace_https r [] = []"
| "replace_https r (c # cs) =
     (case match_https (c # cs) of
        Some n \<Rightarrow> r @ drop n (c # cs)
      | None \<Rightarrow> c # replace_https r cs)"

text \<open>The template literal \<open>`${document.documentURI.replace(/https?/, 'ws')}ws`\<close>.\<close>

definition ws_url :: "string \<Rightarrow> string" where
  "ws_url documentURI = replace_https ''ws'' documentURI @ ''ws''"

subsection \<open>The values a message can carry\<close>

text \<open>
  The script is untyped (\<open>let ws;\<close>), so \<open>e.data\<close> is whatever the message event
  carries. A \<open>WebSocket\<close> delivers a string for a text frame and a \<open>Blob\<close> or an
  \<open>ArrayBuffer\<close> for a binary one; the specification speaks of structured payloads such
  as \<open>{ "packet_type": "X" }\<close>. The embedding has the values that are plain data:
  \<open>undefined\<close>, \<open>null\<close>, booleans, numbers, strings, arrays and objects whose properties
  are data properties. \<open>JObj ps\<close> lists the own enumerable properties of an object in the
  order the engine enumerates them; reading a property takes the first entry of that name
  (an object of JavaScript has one at most). A \<open>Blob\<close> and an \<open>ArrayBuffer\<close> have no such
  property and are \<open>JObj []\<close>. \<open>JNum n\<close> is the number \<open>n\<close> for an integer \<open>n\<close> of
  magnitude up to \<open>2^53\<close>, the range in which every integer is a number and is printed
  digit by digit; fractions, infinities and \<open>NaN\<close> are floating point and have no
  counterpart here. Functions, symbols, big integers, accessor properties and cyclic objects
  are left out as well: no transport and no decoder delivers them. \<open>undefined\<close> and
  \<open>null\<close> are values a property can have; a message event never carries them as its
  data.
\<close>

datatype jsval =
    JUndefined
  | JNull
  | JBool bool
  | JNum int
  | JStr string
  | JArr "jsval list"
  | JObj "(string \<times> jsval) list"

datatype error = TypeError | SyntaxError

text \<open>
  \<open>e.data.packet_type\<close>: reading a property of \<open>undefined\<close> or \<open>null\<close> throws a
  \<open>TypeError\<close>. A boolean, a number, a string and an array have no property of that name
  (theirs are indices, \<open>length\<close> and the methods of their prototypes), so the read gives
  \<open>undefined\<close>, as it does on an object without the property.
\<close>

fun get_packet_type :: "jsval \<Rightarrow> error + jsval" where
  "get_packet_type JUndefined = Inl TypeError"
| "get_packet_type JNull = Inl TypeError"
| "get_packet_type (JObj ps) =
     Inr (case map_of ps ''packet_type'' of None \<Rightarrow> JUndefined | Some v \<Rightarrow> v)"
| "get_packet_type v = Inr JUndefined"

text \<open>The conversion to a boolean that \<open>!\<close> applies to its operand.\<close>

fun ToBoolean :: "jsval \<Rightarrow> bool" where
  "ToBoolean JUndefined = False"
| "ToBoolean JNull = False"
| "ToBoolean (JBool b) = b"
| "ToBoolean (JNum n) = (n \<noteq> 0)"
| "ToBoolean (JStr s) = (s \<noteq> [])"
| "ToBoolean (JArr vs) = True"
| "ToBoolean (JObj ps) = True"

subsection \<open>\<open>JSON.stringify\<close>\<close>

fun digit_chars :: "nat \<Rightarrow> string" where
  "digit_chars n =
     (if n < 10 then [char_of (48 + n)]
      else digit_chars (n div 10) @ [char_of (48 + n mod 10)])"

declare digit_chars.simps [simp del]

definition Number_toString :: "int \<Rightarrow> string" where
  "Number_toString n =
     (if n < 0 then ''-'' @ digit_chars (nat (- n)) else digit_chars (nat n))"

definition hex_digit :: "nat \<Rightarrow> char" where
  "hex_digit n = (if n < 10 then char_of (48 + n) else char_of (87 + n))"

text \<open>\<open>\u00XX\<close> for a code unit below 256, in lower-case hexadecimal digits.\<close>

definition UnicodeEscape :: "char \<Rightarrow> string" where
  "UnicodeEscape c =
     [CHR 0x5C, CHR ''u'', CHR ''0'', CHR ''0'',
      hex_digit ((of_char c :: nat) div 16), hex_digit ((of_char c :: nat) mod 16)]"

text \<open>
  One code unit inside a JSON string: the short escapes for backspace, tab, line feed, form
  feed, carriage return, the double quote and the backslash, \<open>\u00XX\<close> for the other
  control characters, and the code unit itself otherwise.
\<close>

definition quote_code_unit :: "char \<Rightarrow> string" where
  "quote_code_unit c =
     (if c = CHR 0x08 then [CHR 0x5C, CHR ''b'']
      else if c = CHR 0x09 then [CHR 0x5C, CHR ''t'']
      else if c = CHR 0x0A then [CHR 0x5C, CHR ''n'']
      else if c = CHR 0x0C then [CHR 0x5C, CHR ''f'']
      else if c = CHR 0x0D then [CHR 0x5C, CHR ''r'']
      else if c = CHR 0x22 then [CHR 0x5C, CHR 0x22]
      else if c = CHR 0x5C then [CHR 0x5C, CHR 0x5C]
      else if (of_char c :: nat) < 32 then UnicodeEscape c
      else [c])"

definition QuoteJSONString :: "string \<Rightarrow> string" where
  "QuoteJSONString s = [CHR 0x22] @ concat (map quote_code_unit s) @ [CHR 0x22]"

fun join_comma :: "string list \<Rightarrow> string" where
  "join_comma [] = []"
| "join_comma [x] = x"
| "join_comma (x # y # ys) = x @ '','' @ join_comma (y # ys)"

text \<open>
  The serialization of one value, \<open>None\<close> for the result \<open>undefined\<close>. No indentation is
  asked for. An \<open>undefined\<close> element of an array is written \<open>null\<close>; a property of an
  object whose value is \<open>undefined\<close> is left out.
\<close>

fun SerializeJSONProperty :: "jsval \<Rightarrow> string option" where
  "SerializeJSONProperty JUndefined = None"
| "SerializeJSONProperty JNull = Some ''null''"
| "SerializeJSONProperty (JBool b) = Some (if b then ''true'' else ''false'')"
| "SerializeJSONProperty (JNum n) = Some (Number_toString n)"
| "SerializeJSONProperty (JStr s) = Some (QuoteJSONString s)"
| "SerializeJSONProperty (JArr vs) =
     Some (''['' @
           join_comma (map (\<lambda>v. case SerializeJSONProperty v of
                                   None \<Rightarrow> ''null''
                                 | Some s \<Rightarrow> s) vs) @
           '']'')"
| "SerializeJSONProperty (JObj ps) =
     Some (''{'' @
           join_comma (concat (map (\<lambda>p. case SerializeJSONProperty (snd p) of
                                           None \<Rightarrow> []
                                         | Some s \<Rightarrow> [QuoteJSONString (fst p) @ '':'' @ s]) ps)) @
           ''}'')"

definition JSON_stringify :: "jsval \<Rightarrow> string option" where
  "JSON_stringify v = SerializeJSONProperty v"

text \<open>
  \<open>${JSON.stringify(e.data)}\<close> inside a template literal: the result is converted to a
  string, and \<open>undefined\<close> becomes the nine characters \<open>undefined\<close>.
\<close>

definition ToString :: "string option \<Rightarrow> string" where
  "ToString r = (case r of None \<Rightarrow> ''undefined'' | Some s \<Rightarrow> s)"

subsection \<open>The state of the page\<close>

text \<open>
  The two arrow functions of the script are the only functions it ever stores. A
  \<open>WebSocket\<close> object is the address it was constructed with and its two handler
  properties.
\<close>

datatype closure = Onopen_fn | Onmessage_fn

record websocket =
  url :: string
  onopen :: "closure option"
  onmessage :: "closure option"

datatype console_method = Console_log | Console_error

text \<open>
  \<open>ws\<close> is the module-level variable (\<open>None\<close> is \<open>undefined\<close>), holding the index of an
  object in \<open>sockets\<close>, the objects constructed so far. \<open>ws_writes\<close> counts the
  assignments to the variable; it is bookkeeping of the model, which the script cannot
  read. \<open>console\<close> is what was written to the console, oldest first; \<open>uncaught\<close> the
  exceptions that left the script or a handler and reached the runtime.
\<close>

record state =
  ws :: "nat option"
  ws_writes :: nat
  sockets :: "websocket list"
  console :: "(console_method \<times> string) list"
  uncaught :: "error list"

definition init :: state where
  "init = \<lparr>ws = None, ws_writes = 0, sockets = [], console = [], uncaught = []\<rparr>"

definition DEBUG :: bool where
  "DEBUG = True"

definition console_emit :: "console_method \<Rightarrow> string \<Rightarrow> state \<Rightarrow> state" where
  "console_emit m msg st = st\<lparr>console := console st @ [(m, msg)]\<rparr>"

text \<open>The entries a step wrote: those of \<open>st'\<close> behind the ones \<open>st\<close> already had.\<close>

definition new_entries :: "state \<Rightarrow> state \<Rightarrow> (console_method \<times> string) list" where
  "new_entries st st' = drop (length (console st)) (console st')"

subsection \<open>The handlers\<close>

text \<open>
  A call ends with the state it leaves and the exception it threw, if any.
  \<^verbatim>\<open>
  ws.onopen = e => { console.log("Websocket connection established!"); }
  \<close>
\<close>

definition onopen_handler :: "state \<Rightarrow> error option \<times> state" where
  "onopen_handler st =
     (None, console_emit Console_log ''Websocket connection established!'' st)"

text \<open>
  \<^verbatim>\<open>
  ws.onmessage = e => {
      if (!e.data.packet_type)
          console.error(`Invalid packet recieved: ${JSON.stringify(e.data)}`);
      if (DEBUG)
          console.log(`Packet recieved: ${JSON.stringify(e.data)}`);
  }
  \<close>
\<close>

definition onmessage_handler :: "jsval \<Rightarrow> state \<Rightarrow> error option \<times> state" where
  "onmessage_handler data st =
     (case get_packet_type data of
        Inl err \<Rightarrow> (Some err, st)
      | Inr packet_type \<Rightarrow>
          (let st1 = (if \<not> ToBoolean packet_type
                      then console_emit Console_error
                             (''Invalid packet recieved: '' @ ToString (JSON_stringify data)) st
                      else st);
               st2 = (if DEBUG
                      then console_emit Console_log
                             (''Packet recieved: '' @ ToString (JSON_stringify data)) st1
                      else st1)
           in (None, st2)))"

subsection \<open>Start-up and the event loop\<close>

text \<open>
  By the constructor steps of the WebSocket standard, \<open>new WebSocket(url)\<close> parses
  the address and throws a \<open>SyntaxError\<close> when its scheme is none of \<open>ws\<close>, \<open>wss\<close>, \<open>http\<close> and \<open>https\<close>, or when it has a
  fragment. The address here is made from \<open>document.documentURI\<close>, the serialization of
  the page's own address, which has a scheme in lower case followed by a colon: the scheme
  is what stands before the first colon, and there is a fragment exactly when a \<open>#\<close>
  occurs. A constructor that returns has made the object; whether the connection is then
  established is the network's and is reported by events.
\<close>

definition url_scheme :: "string \<Rightarrow> string" where
  "url_scheme u = takeWhile (\<lambda>c. c \<noteq> CHR '':'') u"

definition WebSocket_accepts :: "string \<Rightarrow> bool" where
  "WebSocket_accepts u =
     (url_scheme u \<in> {''ws'', ''wss'', ''http'', ''https''} \<and> CHR ''#'' \<notin> set u)"

definition new_WebSocket :: "string \<Rightarrow> state \<Rightarrow> error + nat \<times> state" where
  "new_WebSocket u st =
     (if WebSocket_accepts u
      then Inr (length (sockets st),
                st\<lparr>sockets := sockets st @ [\<lparr>url = u, onopen = None, onmessage = None\<rparr>]\<rparr>)
      else Inl SyntaxError)"

text \<open>\<open>ws = ...\<close>: the one place of the script that assigns to the variable.\<close>

definition assign_ws :: "nat \<Rightarrow> state \<Rightarrow> state" where
  "assign_ws h st = st\<lparr>ws := Some h, ws_writes := Suc (ws_writes st)\<rparr>"

text \<open>
  \<open>ws.onopen = f\<close> and \<open>ws.onmessage = f\<close> read the variable and write a property of
  the object it refers to; on \<open>undefined\<close> the write throws.
\<close>

definition set_property :: "(websocket \<Rightarrow> websocket) \<Rightarrow> state \<Rightarrow> error option \<times> state" where
  "set_property upd st =
     (case ws st of
        None \<Rightarrow> (Some TypeError, st)
      | Some h \<Rightarrow>
          (None, if h < length (sockets st)
                 then st\<lparr>sockets := (sockets st)[h := upd (sockets st ! h)]\<rparr>
                 else st))"

text \<open>
  The immediately invoked function of the script, run on the page's \<open>documentURI\<close>. When
  the constructor throws, the assignment and the two property writes behind it are not
  reached.
\<close>

definition main :: "string \<Rightarrow> state \<Rightarrow> error option \<times> state" where
  "main documentURI st =
     (case new_WebSocket (ws_url documentURI) st of
        Inl err \<Rightarrow> (Some err, st)
      | Inr (h, st1) \<Rightarrow>
          (let st2 = assign_ws h st1
           in case set_property (\<lambda>w. w\<lparr>onopen := Some Onopen_fn\<rparr>) st2 of
                (Some err, st3) \<Rightarrow> (Some err, st3)
              | (None, st3) \<Rightarrow> set_property (\<lambda>w. w\<lparr>onmessage := Some Onmessage_fn\<rparr>) st3))"

text \<open>
  The runtime calls a handler with an event; \<open>d\<close> is the event's \<open>data\<close>. The open
  handler ignores its event.
\<close>

fun call :: "closure \<Rightarrow> jsval \<Rightarrow> state \<Rightarrow> error option \<times> state" where
  "call Onopen_fn d st = onopen_handler st"
| "call Onmessage_fn d st = onmessage_handler d st"

datatype event = Open_event nat | Message_event nat jsval

text \<open>An exception that leaves a handler is reported by the runtime; the page goes on.\<close>

definition report :: "error option \<times> state \<Rightarrow> state" where
  "report r =
     (case fst r of
        None \<Rightarrow> snd r
      | Some err \<Rightarrow> (snd r)\<lparr>uncaught := uncaught (snd r) @ [err]\<rparr>)"

text \<open>
  An event on the object \<open>h\<close> runs the handler stored in the matching property, if there is
  one. An open event carries no data.
\<close>

fun dispatch :: "event \<Rightarrow> state \<Rightarrow> state" where
  "dispatch (Open_event h) st =
     (if h < length (sockets st)
      then (case onopen (sockets st ! h) of
              None \<Rightarrow> st
            | Some f \<Rightarrow> report (call f JUndefined st))
      else st)"
| "dispatch (Message_event h d) st =
     (if h < length (sockets st)
      then (case onmessage (sockets st ! h) of
              None \<Rightarrow> st
            | Some f \<Rightarrow> report (call f d st))
      else st)"

text \<open>The page after start-up, and after the events the runtime delivers, in order.\<close>

definition boot :: "string \<Rightarrow> state" where
  "boot documentURI = report (main documentURI init)"

definition run :: "event list \<Rightarrow> state \<Rightarrow> state" where
  "run evs st = foldl (\<lambda>s e. dispatch e s) st evs"

text \<open>
  Whether a payload is an object with a property named \<open>packet_type\<close>. The script never
  asks this; the definition is here to state what the specification says about presence.
\<close>

fun has_packet_type :: "jsval \<Rightarrow> bool" where
  "has_packet_type (JObj ps) = (''packet_type'' \<in> fst ` set ps)"
| "has_packet_type v = False"

section \<open>Properties of the endpoint address\<close>

lemma match_https_None_iff: "match_https s = None \<longleftrightarrow> \<not> prefix ''http'' s"
  by (simp add: match_https_def)

lemma sublist_http_Cons:
  "sublist ''http'' (c # cs) \<longleftrightarrow> prefix ''http'' (c # cs) \<or> sublist ''http'' cs"
  by (simp add: sublist_Cons_right)

lemma replace_https_no_match:
  "\<not> sublist ''http'' s \<Longrightarrow> replace_https r s = s"
proof (induction s)
  case Nil
  show ?case by simp
next
  case (Cons c cs)
  from Cons.prems have no_here: "\<not> prefix ''http'' (c # cs)"
    and no_later: "\<not> sublist ''http'' cs"
    using sublist_http_Cons [of c cs] by blast+
  from no_here have "match_https (c # cs) = None"
    by (simp add: match_https_None_iff)
  with Cons.IH [OF no_later] show ?case by simp
qed

text \<open>
  When no occurrence of \<open>http\<close> starts inside \<open>pre\<close>, the search passes over \<open>pre\<close>
  unchanged and replaces what the pattern matches right behind it.
\<close>

lemma replace_https_skip:
  "\<forall>i < length pre. \<not> prefix ''http'' (drop i (pre @ s)) \<Longrightarrow>
   replace_https r (pre @ s) = pre @ replace_https r s"
proof (induction pre)
  case Nil
  show ?case by simp
next
  case (Cons c pre)
  from Cons.prems have "\<not> prefix ''http'' (drop 0 ((c # pre) @ s))"
    by (metis length_greater_0_conv list.distinct(1))
  then have here: "match_https (c # pre @ s) = None"
    by (simp add: match_https_None_iff)
  have "\<forall>i < length pre. \<not> prefix ''http'' (drop i (pre @ s))"
  proof (intro allI impI)
    fix i assume "i < length pre"
    then have "Suc i < length (c # pre)" by simp
    with Cons.prems have "\<not> prefix ''http'' (drop (Suc i) ((c # pre) @ s))" by blast
    then show "\<not> prefix ''http'' (drop i (pre @ s))" by simp
  qed
  from Cons.IH [OF this] here show ?case by simp
qed


text \<open>
  C3. For every page address beginning with \<open>http://\<close>, the endpoint address is the
  address with that leading \<open>http\<close> replaced by \<open>ws\<close>, everything behind it kept, and
  \<open>ws\<close> appended.
\<close>

theorem ws_url_http: "ws_url (''http://'' @ rest) = ''ws://'' @ rest @ ''ws''"
  by (simp add: ws_url_def match_https_def)

text \<open>
  C1, as stated: for a page address beginning with \<open>https://\<close> the endpoint address
  begins with \<open>wss://\<close>. It does not: the pattern takes the \<open>s\<close> with it.
\<close>

theorem ws_url_https_not_wss:
  "ws_url ''https://host/path'' = ''ws://host/pathws'' \<and>
   \<not> prefix ''wss://'' (ws_url ''https://host/path'')"
  by (simp add: ws_url_def match_https_def)

text \<open>
  C1, amended. For every page address beginning with \<open>https://\<close>, the endpoint address
  begins with \<open>ws://\<close>: the leading \<open>https\<close> is replaced by \<open>ws\<close>, everything behind it
  is kept, and \<open>ws\<close> is appended.
\<close>

theorem ws_url_https: "ws_url (''https://'' @ rest) = ''ws://'' @ rest @ ''ws''"
  by (simp add: ws_url_def match_https_def)

text \<open>No occurrence of \<open>http\<close> can begin inside \<open>pre\<close> and end outside it.\<close>

lemma no_overlap:
  assumes "\<not> sublist ''http'' pre" and "i < length pre"
  shows "\<not> prefix ''http'' (drop i (pre @ ''http'' @ rest))"
proof
  assume p: "prefix ''http'' (drop i (pre @ ''http'' @ rest))"
  define t where "t = drop i pre"
  from assms(2) have t_ne: "t \<noteq> []" by (simp add: t_def)
  have "sublist t pre"
    unfolding t_def by (rule suffix_imp_sublist) (rule suffix_drop)
  with assms(1) have no: "\<not> sublist ''http'' t"
    using sublist_order.order_trans by blast
  then have not_pre: "\<not> prefix ''http'' t"
    using prefix_imp_sublist by blast
  from p assms(2) have q: "prefix ''http'' (t @ ''http'' @ rest)"
    by (simp add: t_def)
  obtain a t1 where t1: "t = a # t1" using t_ne by (cases t) auto
  show False
  proof (cases t1)
    case Nil
    with q t1 show False by simp
  next
    case (Cons b t2)
    show False
    proof (cases t2)
      case Nil
      with q t1 Cons show False by simp
    next
      case (Cons c t3)
      note t2 = this
      show False
      proof (cases t3)
        case Nil
        with q t1 \<open>t1 = b # t2\<close> t2 show False by simp
      next
        case (Cons d t4)
        with q t1 \<open>t1 = b # t2\<close> t2 have "prefix ''http'' t" by auto
        with not_pre show False ..
      qed
    qed
  qed
qed

text \<open>
  C10. A page address without the substring \<open>http\<close> is left as it is and \<open>ws\<close> is
  appended. Where the substring occurs, its first occurrence is the one replaced (with the
  \<open>s\<close> that may follow it, which the pattern takes along); whatever stands behind it,
  further occurrences included, is kept.
\<close>

theorem ws_url_first_occurrence_only:
  "(\<not> sublist ''http'' uri \<longrightarrow> ws_url uri = uri @ ''ws'') \<and>
   (\<not> sublist ''http'' pre \<longrightarrow>
      ws_url (pre @ ''http'' @ rest) =
        pre @ ''ws'' @ (if prefix ''s'' rest then tl rest else rest) @ ''ws'')"
proof (intro conjI impI)
  assume "\<not> sublist ''http'' uri"
  then show "ws_url uri = uri @ ''ws''"
    by (simp add: ws_url_def replace_https_no_match)
next
  assume no: "\<not> sublist ''http'' pre"
  have "\<forall>i < length pre. \<not> prefix ''http'' (drop i (pre @ ''http'' @ rest))"
    using no_overlap [OF no] by blast
  then have skip: "replace_https ''ws'' (pre @ ''http'' @ rest) =
                   pre @ replace_https ''ws'' (''http'' @ rest)"
    by (rule replace_https_skip)
  have here: "replace_https ''ws'' (''http'' @ rest) =
              ''ws'' @ (if prefix ''s'' rest then tl rest else rest)"
    by (cases rest) (auto simp add: match_https_def)
  show "ws_url (pre @ ''http'' @ rest) =
        pre @ ''ws'' @ (if prefix ''s'' rest then tl rest else rest) @ ''ws''"
    unfolding ws_url_def skip here by simp
qed

theorem ws_url_first_occurrence_only_witness:
  "\<not> sublist ''http'' ''file:///index.html'' \<and>
   ws_url ''file:///index.html'' = ''file:///index.htmlws'' \<and>
   \<not> sublist ''http'' ''x-'' \<and>
   ws_url ''x-https://a/http'' = ''x-ws://a/httpws''"
proof -
  have a: "\<not> sublist ''http'' ''file:///index.html''" by code_simp
  have b: "\<not> sublist ''http'' ''x-''" by code_simp
  from ws_url_first_occurrence_only [of "''file:///index.html''" "''x-''" "''s://a/http''"] a b
  show ?thesis by simp
qed

section \<open>Start-up and what the handlers leave alone\<close>

lemma WebSocket_accepts_http:
  "WebSocket_accepts (ws_url (''http://'' @ rest)) = (CHR ''#'' \<notin> set rest)"
  by (simp add: WebSocket_accepts_def url_scheme_def ws_url_def match_https_def)


text \<open>The replacement removes letters of \<open>https\<close> only, so a \<open>#\<close> stays where it is.\<close>

lemma hash_kept: "CHR ''#'' \<in> set s \<Longrightarrow> CHR ''#'' \<in> set (replace_https r s)"
proof (induction s)
  case Nil
  then show ?case by simp
next
  case (Cons c cs)
  show ?case
  proof (cases "match_https (c # cs)")
    case None
    with Cons show ?thesis by auto
  next
    case (Some n)
    then have p: "prefix ''http'' (c # cs)"
      by (simp add: match_https_def split: if_splits)
    then obtain t where t: "c # cs = ''http'' @ t"
      by (auto simp add: prefix_def)
    with Cons.prems have in_t: "CHR ''#'' \<in> set t" by auto
    show ?thesis
    proof (cases "prefix ''https'' (c # cs)")
      case True
      then obtain t' where t': "c # cs = ''https'' @ t'"
        by (auto simp add: prefix_def)
      with t have "t = CHR ''s'' # t'" by simp
      with in_t have "CHR ''#'' \<in> set t'" by simp
      moreover from True p have "match_https (c # cs) = Some 5"
        by (simp add: match_https_def)
      ultimately show ?thesis
        using t' by simp
    next
      case False
      with p have "match_https (c # cs) = Some 4"
        by (simp add: match_https_def)
      with in_t t show ?thesis by simp
    qed
  qed
qed

lemma fragment_refused: "CHR ''#'' \<in> set uri \<Longrightarrow> \<not> WebSocket_accepts (ws_url uri)"
  by (simp add: WebSocket_accepts_def ws_url_def hash_kept)

lemma main_accepted:
  "WebSocket_accepts (ws_url uri) \<Longrightarrow>
   main uri init =
     (None, \<lparr>ws = Some 0, ws_writes = 1,
             sockets = [\<lparr>url = ws_url uri, onopen = Some Onopen_fn,
                         onmessage = Some Onmessage_fn\<rparr>],
             console = [], uncaught = []\<rparr>)"
  by (simp add: main_def new_WebSocket_def assign_ws_def set_property_def init_def)

lemma main_refused:
  "\<not> WebSocket_accepts (ws_url uri) \<Longrightarrow> main uri init = (Some SyntaxError, init)"
  by (simp add: main_def new_WebSocket_def)

lemma boot_accepted:
  "WebSocket_accepts (ws_url uri) \<Longrightarrow>
   boot uri =
     \<lparr>ws = Some 0, ws_writes = 1,
      sockets = [\<lparr>url = ws_url uri, onopen = Some Onopen_fn, onmessage = Some Onmessage_fn\<rparr>],
      console = [], uncaught = []\<rparr>"
  by (simp add: boot_def report_def main_accepted)

lemma boot_refused:
  assumes "\<not> WebSocket_accepts (ws_url uri)"
  shows "boot uri =
    \<lparr>ws = None, ws_writes = 0, sockets = [], console = [], uncaught = [SyntaxError]\<rparr>"
proof -
  have "main uri init = (Some SyntaxError, init)"
    using assms by (rule main_refused)
  then show ?thesis
    by (simp add: boot_def report_def init_def)
qed

lemma onopen_handler_frame:
  "ws (snd (onopen_handler st)) = ws st \<and>
   ws_writes (snd (onopen_handler st)) = ws_writes st \<and>
   sockets (snd (onopen_handler st)) = sockets st"
  by (simp add: onopen_handler_def console_emit_def)

lemma onmessage_handler_frame:
  "ws (snd (onmessage_handler d st)) = ws st \<and>
   ws_writes (snd (onmessage_handler d st)) = ws_writes st \<and>
   sockets (snd (onmessage_handler d st)) = sockets st"
  by (simp add: onmessage_handler_def console_emit_def Let_def split: sum.split)

lemma report_frame:
  "ws (report r) = ws (snd r) \<and> ws_writes (report r) = ws_writes (snd r) \<and>
   sockets (report r) = sockets (snd r)"
  by (simp add: report_def split: option.split)

lemma call_frame:
  "ws (snd (call f d st)) = ws st \<and> ws_writes (snd (call f d st)) = ws_writes st \<and>
   sockets (snd (call f d st)) = sockets st"
  by (cases f) (simp_all add: onopen_handler_frame onmessage_handler_frame)

lemma dispatch_frame:
  "ws (dispatch e st) = ws st \<and> ws_writes (dispatch e st) = ws_writes st \<and>
   sockets (dispatch e st) = sockets st"
  by (cases e) (simp_all add: report_frame call_frame split: option.split)

text \<open>
  The invariant of the event loop: no event assigns to the variable or changes the
  objects.
\<close>

lemma run_frame:
  "ws (run evs st) = ws st \<and> ws_writes (run evs st) = ws_writes st \<and>
   sockets (run evs st) = sockets st"
proof (induction evs arbitrary: st)
  case Nil
  show ?case by (simp add: run_def)
next
  case (Cons e evs)
  have step: "run (e # evs) st = run evs (dispatch e st)"
    by (simp add: run_def)
  show ?case
    unfolding step using Cons.IH [of "dispatch e st"] dispatch_frame [of e st] by simp
qed




text \<open>
  C8, as stated: the variable \<open>ws\<close> is written exactly once, at start-up. On the page
  \<open>http://host/path#top\<close> the constructor throws before the assignment: the variable is
  never written and stays \<open>undefined\<close>, also after the events that follow.
\<close>

theorem ws_never_written_on_fragment:
  "ws_writes (boot ''http://host/path#top'') = 0 \<and>
   ws (boot ''http://host/path#top'') = None \<and>
   uncaught (boot ''http://host/path#top'') = [SyntaxError] \<and>
   ws_writes (run [Open_event 0, Message_event 0 (JStr ''x'')] (boot ''http://host/path#top'')) = 0"
proof -
  have no: "\<not> WebSocket_accepts (ws_url ''http://host/path#top'')"
    by (rule fragment_refused) simp
  show ?thesis
    using run_frame [of "[Open_event 0, Message_event 0 (JStr ''x'')]" "boot ''http://host/path#top''"]
    by (simp add: boot_refused [OF no])
qed

text \<open>
  C8, amended. The variable \<open>ws\<close> is \<open>undefined\<close> and unwritten before start-up. When the
  constructor accepts the endpoint address, start-up assigns to it exactly once, and it
  then refers to the one object constructed, the connection to that address with both
  handlers installed; when the constructor throws, it is never assigned and stays
  \<open>undefined\<close>. Neither handler assigns to it: after any sequence of events the variable,
  the number of assignments and the objects are what start-up left.
\<close>

theorem ws_written_once:
  "ws init = None \<and> ws_writes init = 0 \<and>
   ws (snd (onopen_handler st)) = ws st \<and>
   ws_writes (snd (onopen_handler st)) = ws_writes st \<and>
   ws (snd (onmessage_handler d st)) = ws st \<and>
   ws_writes (snd (onmessage_handler d st)) = ws_writes st \<and>
   ws (run evs (boot uri)) = ws (boot uri) \<and>
   ws_writes (run evs (boot uri)) = ws_writes (boot uri) \<and>
   sockets (run evs (boot uri)) = sockets (boot uri) \<and>
   (WebSocket_accepts (ws_url uri) \<longrightarrow>
      ws_writes (boot uri) = 1 \<and>
      ws (boot uri) = Some 0 \<and>
      sockets (boot uri) =
        [\<lparr>url = ws_url uri, onopen = Some Onopen_fn, onmessage = Some Onmessage_fn\<rparr>]) \<and>
   (\<not> WebSocket_accepts (ws_url uri) \<longrightarrow>
      ws_writes (boot uri) = 0 \<and> ws (boot uri) = None \<and> sockets (boot uri) = [])"
proof -
  have before: "ws init = None \<and> ws_writes init = 0"
    by (simp add: init_def)
  have kept: "ws (run evs (boot uri)) = ws (boot uri) \<and>
              ws_writes (run evs (boot uri)) = ws_writes (boot uri) \<and>
              sockets (run evs (boot uri)) = sockets (boot uri)"
    by (rule run_frame)
  have once: "ws_writes (boot uri) = 1 \<and> ws (boot uri) = Some 0 \<and>
              sockets (boot uri) =
                [\<lparr>url = ws_url uri, onopen = Some Onopen_fn, onmessage = Some Onmessage_fn\<rparr>]"
    if "WebSocket_accepts (ws_url uri)"
    by (simp add: boot_accepted [OF that])
  have never: "ws_writes (boot uri) = 0 \<and> ws (boot uri) = None \<and> sockets (boot uri) = []"
    if "\<not> WebSocket_accepts (ws_url uri)"
    by (simp add: boot_refused [OF that])
  from before kept once never show ?thesis
    by (simp add: onopen_handler_frame onmessage_handler_frame)
qed

text \<open>
  The amended C8 at the page \<open>http://localhost:3000/\<close>: one assignment, and the variable
  refers to the connection to \<open>ws://localhost:3000/ws\<close> after an open event and a message.
\<close>

theorem ws_written_once_witness:
  "WebSocket_accepts (ws_url ''http://localhost:3000/'') \<and>
   ws_writes (run [Open_event 0, Message_event 0 (JStr ''x'')] (boot ''http://localhost:3000/'')) = 1 \<and>
   ws (run [Open_event 0, Message_event 0 (JStr ''x'')] (boot ''http://localhost:3000/'')) = Some 0 \<and>
   sockets (run [Open_event 0, Message_event 0 (JStr ''x'')] (boot ''http://localhost:3000/'')) =
     [\<lparr>url = ''ws://localhost:3000/ws'', onopen = Some Onopen_fn, onmessage = Some Onmessage_fn\<rparr>]"
proof -
  have yes: "WebSocket_accepts (ws_url ''http://localhost:3000/'')"
    using WebSocket_accepts_http [of "''localhost:3000/''"] by simp
  have u: "ws_url ''http://localhost:3000/'' = ''ws://localhost:3000/ws''"
    by (simp add: ws_url_def match_https_def)
  from ws_written_once [of init JNull "[Open_event 0, Message_event 0 (JStr ''x'')]"
      "''http://localhost:3000/''"] yes
  show ?thesis
    by (simp add: u)
qed

section \<open>The open handler\<close>

text \<open>
  C6. An open event on the connection, at any point of the life of a page whose connection
  was constructed, changes the state in one way only: one entry is written with
  \<open>console.log\<close>, the fixed message. Nothing is written with \<open>console.error\<close>, no
  second entry appears, and no exception reaches the event loop; the open handler does
  this in every state. (The specification's info and debug levels are both \<open>console.log\<close>
  in the script; the entries differ by their text.)
\<close>

theorem open_event_logs_once:
  "(WebSocket_accepts (ws_url uri) \<longrightarrow>
      dispatch (Open_event 0) (run evs (boot uri)) =
        (run evs (boot uri))
          \<lparr>console := console (run evs (boot uri)) @
                       [(Console_log, ''Websocket connection established!'')]\<rparr>) \<and>
   onopen_handler st =
     (None, st\<lparr>console := console st @ [(Console_log, ''Websocket connection established!'')]\<rparr>)"
proof (intro conjI impI)
  assume a: "WebSocket_accepts (ws_url uri)"
  have "sockets (run evs (boot uri)) =
          [\<lparr>url = ws_url uri, onopen = Some Onopen_fn, onmessage = Some Onmessage_fn\<rparr>]"
    using run_frame [of evs "boot uri"] by (simp add: boot_accepted [OF a])
  then show "dispatch (Open_event 0) (run evs (boot uri)) =
        (run evs (boot uri))
          \<lparr>console := console (run evs (boot uri)) @
                       [(Console_log, ''Websocket connection established!'')]\<rparr>"
    by (simp add: report_def onopen_handler_def console_emit_def)
next
  show "onopen_handler st =
     (None, st\<lparr>console := console st @ [(Console_log, ''Websocket connection established!'')]\<rparr>)"
    by (simp add: onopen_handler_def console_emit_def)
qed

text \<open>
  C6 at the page \<open>http://localhost:3000/\<close>, for the open event that follows start-up.
\<close>

theorem open_event_logs_once_witness:
  "WebSocket_accepts (ws_url ''http://localhost:3000/'') \<and>
   console (dispatch (Open_event 0) (run [] (boot ''http://localhost:3000/''))) =
     [(Console_log, ''Websocket connection established!'')] \<and>
   uncaught (dispatch (Open_event 0) (run [] (boot ''http://localhost:3000/''))) = []"
proof -
  have yes: "WebSocket_accepts (ws_url ''http://localhost:3000/'')"
    using WebSocket_accepts_http [of "''localhost:3000/''"] by simp
  have start: "run [] (boot ''http://localhost:3000/'') = boot ''http://localhost:3000/''"
    by (simp add: run_def)
  from open_event_logs_once [of "''http://localhost:3000/''" "[]" init] yes
  have logged: "dispatch (Open_event 0) (boot ''http://localhost:3000/'') =
        (boot ''http://localhost:3000/'')
          \<lparr>console := console (boot ''http://localhost:3000/'') @
                       [(Console_log, ''Websocket connection established!'')]\<rparr>"
    by (simp add: start)
  show ?thesis
    unfolding start logged using yes by (simp add: boot_accepted [OF yes])
qed

section \<open>The message handler\<close>

lemma get_packet_type_returns:
  "d \<noteq> JUndefined \<Longrightarrow> d \<noteq> JNull \<Longrightarrow> \<exists>v. get_packet_type d = Inr v"
  by (cases d) simp_all

lemma get_packet_type_absent:
  "d \<noteq> JUndefined \<Longrightarrow> d \<noteq> JNull \<Longrightarrow> \<not> has_packet_type d \<Longrightarrow>
   get_packet_type d = Inr JUndefined"
proof (cases d)
  case (JObj ps)
  assume "\<not> has_packet_type d"
  with JObj have "''packet_type'' \<notin> fst ` set ps" by simp
  then have "map_of ps ''packet_type'' = None"
    by (simp add: map_of_eq_None_iff)
  with JObj show ?thesis by simp
qed simp_all

lemma JSON_stringify_defined:
  "d \<noteq> JUndefined \<Longrightarrow> \<exists>s. JSON_stringify d = Some s"
  by (cases d) (simp_all add: JSON_stringify_def)

lemma falsy_values:
  "(\<not> ToBoolean v) = (v \<in> {JUndefined, JNull, JBool False, JNum 0, JStr []})"
  by (cases v) auto

text \<open>
  Once \<open>packet_type\<close> has been read, the handler returns, having written the error entry
  if the value is falsy and then the debug entry.
\<close>

lemma onmessage_handler_returns:
  assumes "get_packet_type d = Inr v"
  shows "onmessage_handler d st =
     (None,
      st\<lparr>console := console st @
           (if ToBoolean v then []
            else [(Console_error, ''Invalid packet recieved: '' @ ToString (JSON_stringify d))]) @
           [(Console_log, ''Packet recieved: '' @ ToString (JSON_stringify d))]\<rparr>)"
  using assms by (simp add: onmessage_handler_def console_emit_def DEBUG_def)

lemma new_entries_append:
  "new_entries st (st\<lparr>console := console st @ es\<rparr>) = es"
  by (simp add: new_entries_def)

text \<open>
  C2, as stated: the error entry is written when and only when the payload lacks a
  \<open>packet_type\<close> field. The payload \<open>{"packet_type": 0}\<close> has the field, and the error
  entry is written all the same.
\<close>

theorem error_log_with_field_present:
  \<open>has_packet_type (JObj [(''packet_type'', JNum 0)]) \<and>
   new_entries init (snd (onmessage_handler (JObj [(''packet_type'', JNum 0)]) init)) =
     [(Console_error, ''Invalid packet recieved: {"packet_type":0}''),
      (Console_log, ''Packet recieved: {"packet_type":0}'')]\<close>
proof -
  have s: \<open>JSON_stringify (JObj [(''packet_type'', JNum 0)]) = Some ''{"packet_type":0}''\<close>
    by code_simp
  have g: "get_packet_type (JObj [(''packet_type'', JNum 0)]) = Inr (JNum 0)"
    by simp
  show ?thesis
    by (simp add: onmessage_handler_returns [OF g] new_entries_append s ToString_def)
qed

text \<open>
  C2, amended. For every payload other than \<open>null\<close> and \<open>undefined\<close>, reading
  \<open>packet_type\<close> gives a value, and the error entry (\<open>Invalid packet recieved: \<close> and the
  serialized payload) is written when and only when that value is falsy: \<open>undefined\<close>
  (which is what an absent property reads as), \<open>null\<close>, \<open>false\<close>, \<open>0\<close> or the empty
  string. For the payload \<open>{}\<close> the error entry is written; for
  \<open>{"packet_type": "X"}\<close> it is not.
\<close>

theorem error_log_iff_falsy:
  assumes "d \<noteq> JUndefined" and "d \<noteq> JNull"
  shows \<open>(\<exists>v. get_packet_type d = Inr v \<and>
          (((Console_error, ''Invalid packet recieved: '' @ ToString (JSON_stringify d))
              \<in> set (new_entries st (snd (onmessage_handler d st)))) =
           (v \<in> {JUndefined, JNull, JBool False, JNum 0, JStr []}))) \<and>
        new_entries st (snd (onmessage_handler (JObj []) st)) =
          [(Console_error, ''Invalid packet recieved: {}''), (Console_log, ''Packet recieved: {}'')] \<and>
        new_entries st (snd (onmessage_handler (JObj [(''packet_type'', JStr ''X'')]) st)) =
          [(Console_log, ''Packet recieved: {"packet_type":"X"}'')]\<close>
proof (intro conjI)
  from assms obtain v where v: "get_packet_type d = Inr v"
    using get_packet_type_returns by blast
  have "((Console_error, ''Invalid packet recieved: '' @ ToString (JSON_stringify d))
           \<in> set (new_entries st (snd (onmessage_handler d st)))) = (\<not> ToBoolean v)"
    by (simp add: onmessage_handler_returns [OF v] new_entries_append)
  with v show "\<exists>v. get_packet_type d = Inr v \<and>
          (((Console_error, ''Invalid packet recieved: '' @ ToString (JSON_stringify d))
              \<in> set (new_entries st (snd (onmessage_handler d st)))) =
           (v \<in> {JUndefined, JNull, JBool False, JNum 0, JStr []}))"
    using falsy_values [of v] by blast
next
  have s: "JSON_stringify (JObj []) = Some ''{}''"
    by code_simp
  have g: "get_packet_type (JObj []) = Inr JUndefined"
    by simp
  show "new_entries st (snd (onmessage_handler (JObj []) st)) =
          [(Console_error, ''Invalid packet recieved: {}''), (Console_log, ''Packet recieved: {}'')]"
    by (simp add: onmessage_handler_returns [OF g] new_entries_append s ToString_def)
next
  have s: \<open>JSON_stringify (JObj [(''packet_type'', JStr ''X'')]) = Some ''{"packet_type":"X"}''\<close>
    by code_simp
  have g: "get_packet_type (JObj [(''packet_type'', JStr ''X'')]) = Inr (JStr ''X'')"
    by simp
  show \<open>new_entries st (snd (onmessage_handler (JObj [(''packet_type'', JStr ''X'')]) st)) =
          [(Console_log, ''Packet recieved: {"packet_type":"X"}'')]\<close>
    by (simp add: onmessage_handler_returns [OF g] new_entries_append s ToString_def)
qed

text \<open>The amended C2 at the payload \<open>{"packet_type": false}\<close>.\<close>

theorem error_log_iff_falsy_witness:
  \<open>JObj [(''packet_type'', JBool False)] \<noteq> JUndefined \<and>
   JObj [(''packet_type'', JBool False)] \<noteq> JNull \<and>
   get_packet_type (JObj [(''packet_type'', JBool False)]) = Inr (JBool False) \<and>
   (Console_error, ''Invalid packet recieved: {"packet_type":false}'')
     \<in> set (new_entries init (snd (onmessage_handler (JObj [(''packet_type'', JBool False)]) init)))\<close>
proof -
  let ?d = "JObj [(''packet_type'', JBool False)]"
  have s: \<open>JSON_stringify ?d = Some ''{"packet_type":false}''\<close>
    by code_simp
  have g: "get_packet_type ?d = Inr (JBool False)"
    by simp
  have "?d \<noteq> JUndefined" and "?d \<noteq> JNull"
    by simp_all
  from error_log_iff_falsy [OF this, of init] g
  have "(Console_error, ''Invalid packet recieved: '' @ ToString (JSON_stringify ?d))
          \<in> set (new_entries init (snd (onmessage_handler ?d init)))"
    by simp
  with g show ?thesis
    by (simp add: s ToString_def)
qed

text \<open>
  C9. When the payload is an object whose \<open>packet_type\<close> property is the empty string,
  \<open>0\<close>, \<open>false\<close> or \<open>null\<close>, the property is present, the handler returns, and the
  error entry is written: the test is on the truth value of the property, not on its
  presence.
\<close>

theorem falsy_packet_type_logs_error:
  assumes "map_of ps ''packet_type'' = Some v"
    and "v \<in> {JStr [], JNum 0, JBool False, JNull}"
  shows "has_packet_type (JObj ps) \<and>
         fst (onmessage_handler (JObj ps) st) = None \<and>
         (Console_error, ''Invalid packet recieved: '' @ ToString (JSON_stringify (JObj ps)))
           \<in> set (new_entries st (snd (onmessage_handler (JObj ps) st)))"
proof -
  from assms(1) have "(''packet_type'', v) \<in> set ps"
    by (rule map_of_SomeD)
  then have present: "has_packet_type (JObj ps)"
    by (auto simp add: image_iff intro: bexI [of _ "(''packet_type'', v)"])
  from assms(1) have g: "get_packet_type (JObj ps) = Inr v"
    by simp
  from assms(2) have falsy: "\<not> ToBoolean v"
    by auto
  from present falsy show ?thesis
    by (simp add: onmessage_handler_returns [OF g] new_entries_append)
qed

text \<open>C9 at the payload \<open>{"packet_type": ""}\<close>.\<close>

theorem falsy_packet_type_logs_error_witness:
  \<open>map_of [(''packet_type'', JStr [])] ''packet_type'' = Some (JStr []) \<and>
   has_packet_type (JObj [(''packet_type'', JStr [])]) \<and>
   (Console_error, ''Invalid packet recieved: {"packet_type":""}'')
     \<in> set (new_entries init (snd (onmessage_handler (JObj [(''packet_type'', JStr [])]) init)))\<close>
proof -
  let ?ps = "[(''packet_type'', JStr [])]"
  have s: \<open>JSON_stringify (JObj ?ps) = Some ''{"packet_type":""}''\<close>
    by code_simp
  have m: "map_of ?ps ''packet_type'' = Some (JStr [])"
    by simp
  have "JStr [] \<in> {JStr [], JNum 0, JBool False, JNull}"
    by simp
  from falsy_packet_type_logs_error [OF m this, of init] show ?thesis
    by (simp add: s ToString_def)
qed

text \<open>
  The handler throws exactly on the two values that have no properties to read. No message
  event carries either of them, so the hypotheses \<open>d \<noteq> JUndefined\<close> and \<open>d \<noteq> JNull\<close>
  below leave out no inbound message.
\<close>

lemma onmessage_handler_throws_iff:
  "(fst (onmessage_handler d st) = Some TypeError) = (d = JUndefined \<or> d = JNull)"
  by (cases d) (simp_all add: onmessage_handler_def Let_def)

text \<open>
  C4. The debug flag is the constant \<open>true\<close>, and for every inbound message (a string, a
  \<open>Blob\<close>, an \<open>ArrayBuffer\<close> or a structured value; never \<open>null\<close> or \<open>undefined\<close>) the
  handler writes exactly one \<open>console.log\<close> entry, \<open>Packet recieved: \<close> followed by the
  serialized payload, whether or not the error entry was written. On a payload without a
  \<open>packet_type\<close> property the entries written are the error entry and then the debug
  entry.
\<close>

theorem debug_log_always:
  assumes "d \<noteq> JUndefined" and "d \<noteq> JNull"
  shows "DEBUG \<and>
         (\<exists>s. JSON_stringify d = Some s \<and>
               filter (\<lambda>e. fst e = Console_log) (new_entries st (snd (onmessage_handler d st))) =
                 [(Console_log, ''Packet recieved: '' @ s)] \<and>
               (\<not> has_packet_type d \<longrightarrow>
                  new_entries st (snd (onmessage_handler d st)) =
                    [(Console_error, ''Invalid packet recieved: '' @ s),
                     (Console_log, ''Packet recieved: '' @ s)]))"
proof -
  from assms obtain v where v: "get_packet_type d = Inr v"
    using get_packet_type_returns by blast
  from assms(1) obtain s where s: "JSON_stringify d = Some s"
    using JSON_stringify_defined by blast
  have logs: "filter (\<lambda>e. fst e = Console_log) (new_entries st (snd (onmessage_handler d st))) =
                [(Console_log, ''Packet recieved: '' @ s)]"
    by (simp add: onmessage_handler_returns [OF v] new_entries_append s ToString_def)
  have both: "new_entries st (snd (onmessage_handler d st)) =
                [(Console_error, ''Invalid packet recieved: '' @ s),
                 (Console_log, ''Packet recieved: '' @ s)]"
    if "\<not> has_packet_type d"
  proof -
    from assms that have "get_packet_type d = Inr JUndefined"
      by (rule get_packet_type_absent)
    then show ?thesis
      by (simp add: onmessage_handler_returns new_entries_append s ToString_def)
  qed
  from s logs both show ?thesis
    by (simp add: DEBUG_def)
qed

text \<open>
  C4 at the text message \<open>ping\<close>, which has no \<open>packet_type\<close>: both entries are written.
\<close>

theorem debug_log_always_witness:
  \<open>JStr ''ping'' \<noteq> JUndefined \<and> JStr ''ping'' \<noteq> JNull \<and> \<not> has_packet_type (JStr ''ping'') \<and>
   new_entries init (snd (onmessage_handler (JStr ''ping'') init)) =
     [(Console_error, ''Invalid packet recieved: "ping"''),
      (Console_log, ''Packet recieved: "ping"'')]\<close>
proof -
  let ?d = "JStr ''ping''"
  have s: \<open>JSON_stringify ?d = Some ''"ping"''\<close>
    by code_simp
  have "?d \<noteq> JUndefined" and "?d \<noteq> JNull"
    by simp_all
  from debug_log_always [OF this, of init] s show ?thesis
    by simp
qed

text \<open>
  C7. For every inbound message (a string, a \<open>Blob\<close>, an \<open>ArrayBuffer\<close> or a structured
  value; never \<open>null\<close> or \<open>undefined\<close>) the handler returns without an exception, so
  nothing reaches the event loop; the state it leaves differs from the one it found only
  by the entries added to the console, at most two, each of them the error entry or the
  debug entry for that payload.
\<close>

theorem onmessage_total:
  assumes "d \<noteq> JUndefined" and "d \<noteq> JNull"
  shows "\<exists>es. onmessage_handler d st = (None, st\<lparr>console := console st @ es\<rparr>) \<and>
              uncaught (report (onmessage_handler d st)) = uncaught st \<and>
              length es \<le> 2 \<and>
              set es \<subseteq> {(Console_error, ''Invalid packet recieved: '' @ ToString (JSON_stringify d)),
                         (Console_log, ''Packet recieved: '' @ ToString (JSON_stringify d))}"
proof -
  from assms obtain v where v: "get_packet_type d = Inr v"
    using get_packet_type_returns by blast
  show ?thesis
    unfolding onmessage_handler_returns [OF v]
    by (intro exI conjI, rule refl) (auto simp add: report_def)
qed

text \<open>C7 at the payload \<open>{}\<close>.\<close>

theorem onmessage_total_witness:
  \<open>JObj [] \<noteq> JUndefined \<and> JObj [] \<noteq> JNull \<and>
   (\<exists>es. onmessage_handler (JObj []) init = (None, init\<lparr>console := console init @ es\<rparr>) \<and>
         uncaught (report (onmessage_handler (JObj []) init)) = uncaught init \<and>
         length es \<le> 2 \<and>
         set es \<subseteq> {(Console_error, ''Invalid packet recieved: {}''),
                    (Console_log, ''Packet recieved: {}'')})\<close>
proof -
  have s: "JSON_stringify (JObj []) = Some ''{}''"
    by code_simp
  have "JObj [] \<noteq> JUndefined" and "JObj [] \<noteq> JNull"
    by simp_all
  from onmessage_total [OF this, of init] show ?thesis
    by (simp add: s ToString_def)
qed

end
